theory Spec2Isabelle
  imports Main "HOL-Library.AList" "HOL-Library.List_Lexorder"
begin

section \<open>Data preparation (\<open>data/preparation.py\<close>)\<close>

subsection \<open>Python values, errors and metadata records\<close>

text \<open>
  The Python values that reach the functions of the module as labels, units, column names
  and index names: \<open>None\<close>, a string or an integer.
\<close>

datatype pyval = PyNone | PyStr string | PyInt int

text \<open>
  The exception of the module, and the exceptions of Python and pandas that the modelled
  statements can raise besides it. \<open>Inexact\<close> is no exception: it marks the one place
  where pandas computes on machine numbers and the result leaves the range in which
  \<open>int64\<close> and \<open>float64\<close> agree with the integers, so that the model gives no table.
\<close>

datatype error =
    DataPreparationException
  | KeyError
  | ValueError
  | TypeError
  | AttributeError
  | InvalidIndexError
  | Inexact

text \<open>\<open>class Metadatum(Enum)\<close>, with the \<open>name\<close> attribute of its members.\<close>

datatype Metadatum = Label | Unit

fun Metadatum_name :: "Metadatum \<Rightarrow> string" where
  "Metadatum_name Label = ''Label''"
| "Metadatum_name Unit = ''Unit''"

text \<open>
  A metadata dictionary \<open>Dict[Metadatum, str]\<close> is an association list in insertion order.
\<close>

type_synonym metadata_record = "(Metadatum \<times> pyval) list"

text \<open>
  \<open>column_metadata(label, unit=None)\<close> returns the dictionary literal
  \<open>{Metadatum.Label: label, Metadatum.Unit: unit}\<close>; a call without a unit passes \<open>None\<close>.
  The function has no \<open>raise\<close>, so it is a total function into records.
\<close>

definition column_metadata :: "pyval \<Rightarrow> pyval \<Rightarrow> metadata_record" where
  "column_metadata label unit = [(Label, label), (Unit, unit)]"

subsection \<open>The output path\<close>

text \<open>Python's \<open>sub in s\<close> on strings: \<open>sub\<close> occurs in \<open>s\<close> as a contiguous substring.\<close>

fun starts_with :: "string \<Rightarrow> string \<Rightarrow> bool" where
  "starts_with [] s = True"
| "starts_with (c # sub) [] = False"
| "starts_with (c # sub) (d # s) = (c = d \<and> starts_with sub s)"

fun str_in :: "string \<Rightarrow> string \<Rightarrow> bool" where
  "str_in sub [] = (sub = [])"
| "str_in sub (d # s) = (starts_with sub (d # s) \<or> str_in sub s)"

text \<open>
  The first statement of \<open>save_to_file\<close>:
  \<open>if not any([extension in out_file_path for extension in ["h5", "hdf5", "he5"]])\<close>
  then \<open>out_file_path = f"{out_file_path}.hdf5"\<close>. The result is the path handed to
  \<open>pd.HDFStore(path=..., mode="w")\<close>.
\<close>

definition extensions :: "string list" where
  "extensions = [''h5'', ''hdf5'', ''he5'']"

definition file_path :: "string \<Rightarrow> string" where
  "file_path out_file_path =
     (if \<not> list_ex (\<lambda>extension. str_in extension out_file_path) extensions
      then out_file_path @ ''.hdf5'' else out_file_path)"

subsection \<open>Tables: the part of pandas the module uses\<close>

text \<open>
  A \<open>pd.DataFrame\<close> is given by the names of its index levels, its column labels in order
  (labels may repeat) and its rows in order, each an index key (one integer per level) with
  one cell per column; \<open>None\<close> is a missing value (NaN). A \<open>pd.Series\<close> has index names, a
  name and one cell per row. Index values and data are integers here. A column of pandas
  is \<open>int64\<close>, or \<open>float64\<close> once it has a missing value; both hold an integer of magnitude
  at most \<open>2^53\<close> exactly, and that is the range in which the model computes.
\<close>

type_synonym key = "int list"
type_synonym cell = "int option"

record dataframe =
  index_names :: "pyval list"
  columns :: "pyval list"
  rows :: "(key \<times> cell list) list"

record series =
  s_index_names :: "pyval list"
  s_name :: pyval
  s_rows :: "(key \<times> cell) list"

text \<open>
  The \<open>column\<close> and \<open>rows\<close> arguments are \<open>Union[pd.Series, pd.DataFrame]\<close>. A DataFrame
  argument is given by its columns, of which it has at least one; they share the index of
  the first.
\<close>

datatype column_data = Series series | Frame series "series list"

fun arg_index_names :: "column_data \<Rightarrow> pyval list" where
  "arg_index_names (Series s) = s_index_names s"
| "arg_index_names (Frame s others) = s_index_names s"

text \<open>
  \<open>DataFrame.squeeze()\<close> of a one-column frame: the column as a Series, or a bare scalar
  when the frame has exactly one row.
\<close>

datatype squeezed = IsSeries series | IsScalar

definition squeeze :: "series \<Rightarrow> squeezed" where
  "squeeze s = (if length (s_rows s) = 1 then IsScalar else IsSeries s)"

text \<open>\<open>.name\<close> of the squeezed object; a scalar has no such attribute.\<close>

fun name_of :: "squeezed \<Rightarrow> error + pyval" where
  "name_of (IsSeries s) = Inr (s_name s)"
| "name_of IsScalar = Inl AttributeError"

text \<open>
  \<open>pd.DataFrame(columns=key_columns)\<close> followed by \<open>set_index(key_columns, inplace=True)\<close>:
  an empty table whose index levels are the key columns. pandas refuses an index without
  levels (\<open>ValueError\<close>).
\<close>

definition empty_indexed_frame :: "string list \<Rightarrow> error + dataframe" where
  "empty_indexed_frame key_columns =
     (if key_columns = [] then Inl ValueError
      else Inr \<lparr>index_names = map PyStr key_columns, columns = [], rows = []\<rparr>)"

text \<open>
  The column label a Series gets inside a frame: its name, and \<open>0\<close> when it has none.
\<close>

definition column_label :: "pyval \<Rightarrow> pyval" where
  "column_label name = (if name = PyNone then PyInt 0 else name)"

text \<open>\<open>pd.DataFrame(rows)\<close> for a Series.\<close>

definition frame_of_series :: "series \<Rightarrow> dataframe" where
  "frame_of_series s =
     \<lparr>index_names = s_index_names s, columns = [column_label (s_name s)],
      rows = map (\<lambda>(k, v). (k, [v])) (s_rows s)\<rparr>"

text \<open>Joined indexes keep a level name where both sides agree on it, else the level is unnamed.\<close>

definition unify_names :: "pyval list \<Rightarrow> pyval list \<Rightarrow> pyval list" where
  "unify_names xs ys = map (\<lambda>(a, b). if a = b then a else PyNone) (zip xs ys)"

text \<open>
  \<open>pd.concat([container, column], axis=1)\<close>: the Series becomes one more column, at the end,
  whatever the labels already there. The rows are aligned on the index: equal indexes are
  taken as they are, and an empty index joins as the other one; otherwise the result has
  the keys of the container followed by the new keys of the column, and pandas refuses
  (\<open>InvalidIndexError\<close>) to realign an index with duplicate keys. A scalar is refused
  (\<open>TypeError\<close>).
\<close>

definition outer_join :: "dataframe \<Rightarrow> series \<Rightarrow> (key \<times> cell list) list" where
  "outer_join container s =
     (let ks = map fst (rows container) in
      map (\<lambda>k. (k,
            (case map_of (rows container) k of
               Some cells \<Rightarrow> cells
             | None \<Rightarrow> replicate (length (columns container)) None)
            @ [case map_of (s_rows s) k of Some v \<Rightarrow> v | None \<Rightarrow> None]))
        (ks @ filter (\<lambda>k. k \<notin> set ks) (map fst (s_rows s))))"

fun pd_concat_columns :: "dataframe \<Rightarrow> squeezed \<Rightarrow> error + dataframe" where
  "pd_concat_columns container IsScalar = Inl TypeError"
| "pd_concat_columns container (IsSeries s) =
     (let ks = map fst (rows container); ks' = map fst (s_rows s);
          names = unify_names (index_names container) (s_index_names s);
          cols = columns container @ [column_label (s_name s)] in
      if ks = ks' then
        Inr \<lparr>index_names = names, columns = cols,
             rows = map (\<lambda>((k, cells), (k', v)). (k, cells @ [v])) (zip (rows container) (s_rows s))\<rparr>
      else if ks = [] then
        Inr \<lparr>index_names = names, columns = cols,
             rows = map (\<lambda>(k, v). (k, replicate (length (columns container)) None @ [v])) (s_rows s)\<rparr>
      else if ks' = [] then
        Inr \<lparr>index_names = names, columns = cols,
             rows = map (\<lambda>(k, cells). (k, cells @ [None])) (rows container)\<rparr>
      else if \<not> distinct ks \<or> \<not> distinct ks' then Inl InvalidIndexError
      else Inr \<lparr>index_names = names, columns = cols, rows = outer_join container s\<rparr>)"

text \<open>
  \<open>pd.concat([container, pd.DataFrame(rows)], axis=0)\<close>: the rows of the Series are appended
  below the rows of the container, which stay as they are. A frame without rows and columns
  is left out of the concatenation. The columns are aligned by label: under a label the
  container has, the new rows fill every column of that label and are missing elsewhere;
  a new label becomes a new last column, missing in the old rows, and pandas refuses
  (\<open>InvalidIndexError\<close>) to realign a container whose labels repeat.
\<close>

definition pd_concat_rows :: "dataframe \<Rightarrow> series \<Rightarrow> error + dataframe" where
  "pd_concat_rows container s =
     (let name = column_label (s_name s);
          names = unify_names (index_names container) (s_index_names s) in
      if rows container = [] \<and> columns container = [] then Inr (frame_of_series s)
      else if name \<in> set (columns container) then
        Inr \<lparr>index_names = names, columns = columns container,
             rows = rows container
               @ map (\<lambda>(k, v). (k, map (\<lambda>c. if c = name then v else None) (columns container)))
                   (s_rows s)\<rparr>
      else if \<not> distinct (columns container) then Inl InvalidIndexError
      else
        Inr \<lparr>index_names = names, columns = columns container @ [name],
             rows = map (\<lambda>(k, cells). (k, cells @ [None])) (rows container)
               @ map (\<lambda>(k, v). (k, replicate (length (columns container)) None @ [v]))
                   (s_rows s)\<rparr>)"

text \<open>
  \<open>data.groupby(list(data.index.names)).sum()\<close>: one row per distinct index key, in sorted
  order; each cell is the sum of the column over the rows of that key, a missing value
  counting as \<open>0\<close>. pandas refuses an unnamed index level (\<open>KeyError\<close>) and a name that is
  both an index level and a column label (\<open>ValueError\<close>). pandas adds in \<open>int64\<close>, which wraps
  around, or in \<open>float64\<close>, which rounds: the sums are the integer sums as long as the
  magnitudes of all cells of the table add up to at most \<open>2^53\<close>, and beyond that the
  model gives no table (\<open>Inexact\<close>).
\<close>

definition cell_at :: "nat \<Rightarrow> cell list \<Rightarrow> cell" where
  "cell_at j cells = (if j < length cells then cells ! j else None)"

definition cell_value :: "nat \<Rightarrow> cell list \<Rightarrow> int" where
  "cell_value j cells = (case cell_at j cells of Some v \<Rightarrow> v | None \<Rightarrow> 0)"

definition rows_of_key :: "key \<Rightarrow> (key \<times> cell list) list \<Rightarrow> cell list list" where
  "rows_of_key k rs = map snd (filter (\<lambda>r. fst r = k) rs)"

definition column_sum :: "nat \<Rightarrow> cell list list \<Rightarrow> int" where
  "column_sum j css = sum_list (map (cell_value j) css)"

definition magnitude :: "cell \<Rightarrow> int" where
  "magnitude c = (case c of Some v \<Rightarrow> \<bar>v\<bar> | None \<Rightarrow> 0)"

definition table_weight :: "dataframe \<Rightarrow> int" where
  "table_weight data = sum_list (map (\<lambda>(k, cells). sum_list (map magnitude cells)) (rows data))"

definition series_weight :: "series \<Rightarrow> int" where
  "series_weight s = sum_list (map (\<lambda>(k, c). magnitude c) (s_rows s))"

definition exact_limit :: int where
  "exact_limit = 2 ^ 53"

definition group_by_index :: "dataframe \<Rightarrow> error + dataframe" where
  "group_by_index data =
     (if PyNone \<in> set (index_names data) then Inl KeyError
      else if list_ex (\<lambda>n. n \<in> set (columns data)) (index_names data) then Inl ValueError
      else if exact_limit < table_weight data then Inl Inexact
      else
        Inr \<lparr>index_names = index_names data, columns = columns data,
             rows = map (\<lambda>k. (k, map (\<lambda>j. Some (column_sum j (rows_of_key k (rows data))))
                                   [0..<length (columns data)]))
                      (sort (remdups (map fst (rows data))))\<rparr>)"

subsection \<open>The preparer and its operations\<close>

text \<open>
  \<open>self.datasets\<close> maps a group name to the dictionary \<open>{_Type.Data: ..., _Type.Metadata: ...}\<close>.
  Both dictionaries keep insertion order; the metadata dictionary maps a column name to
  its metadata record. The code keeps the \<open>key_metadata\<close> dictionary of the caller itself
  as the metadata of the group and updates it in place; here every group has a dictionary
  of its own, as when each group is created from a dictionary made for it. Where a call
  updates metadata, what is said below is said about the group the call names.
\<close>

record data_group =
  Data :: dataframe
  Metadata :: "(pyval \<times> metadata_record) list"

type_synonym datasets = "(string \<times> data_group) list"

text \<open>
  A method of \<open>DataPreparer\<close> runs on the current \<open>datasets\<close> and leaves the \<open>datasets\<close> it
  has reached, with either the exception it raised or its value. Statements run in
  sequence; a raised exception ends the method in the state reached so far.
\<close>

type_synonym 'a action = "datasets \<Rightarrow> (error + 'a) \<times> datasets"

definition raise :: "error \<Rightarrow> 'a action" where
  "raise e = (\<lambda>self. (Inl e, self))"

definition succeed :: "'a \<Rightarrow> 'a action" where
  "succeed x = (\<lambda>self. (Inr x, self))"

definition and_then :: "'a action \<Rightarrow> ('a \<Rightarrow> 'b action) \<Rightarrow> 'b action" where
  "and_then m f = (\<lambda>self. case m self of (Inl e, self') \<Rightarrow> (Inl e, self') | (Inr x, self') \<Rightarrow> f x self')"

text \<open>A computation that does not touch \<open>self\<close>: it raises or returns.\<close>

definition pure :: "error + 'a \<Rightarrow> 'a action" where
  "pure r = (\<lambda>self. (r, self))"

text \<open>\<open>self.datasets[group]\<close>, read.\<close>

definition get_group :: "string \<Rightarrow> data_group action" where
  "get_group grp =
     (\<lambda>self. case map_of self grp of None \<Rightarrow> (Inl KeyError, self) | Some item \<Rightarrow> (Inr item, self))"

text \<open>\<open>self.datasets[group] = item\<close>.\<close>

definition set_group :: "string \<Rightarrow> data_group \<Rightarrow> unit action" where
  "set_group grp item = (\<lambda>self. (Inr (), AList.update grp item self))"

text \<open>\<open>self.datasets[group][_Type.Data] = df\<close>.\<close>

definition set_data :: "string \<Rightarrow> dataframe \<Rightarrow> unit action" where
  "set_data grp df =
     and_then (get_group grp) (\<lambda>item. set_group grp (item\<lparr>Data := df\<rparr>))"

text \<open>\<open>self.datasets[group][_Type.Metadata].update({name: metadata})\<close>.\<close>

definition update_metadata :: "string \<Rightarrow> pyval \<Rightarrow> metadata_record \<Rightarrow> unit action" where
  "update_metadata grp name metadata =
     and_then (get_group grp) (\<lambda>item.
       set_group grp (item\<lparr>Metadata := AList.update name metadata (Metadata item)\<rparr>))"

text \<open>
  \<open>init_data_group(self, group, key_metadata)\<close>. The key metadata is a dictionary from
  column name to metadata record.
\<close>

definition init_data_group :: "string \<Rightarrow> (string \<times> metadata_record) list \<Rightarrow> unit action" where
  "init_data_group grp key_metadata =
     (\<lambda>self.
       (if grp \<in> fst ` set self then raise DataPreparationException
        else
          let key_columns = map fst key_metadata in
          and_then (pure (empty_indexed_frame key_columns)) (\<lambda>empty_df.
            set_group grp
              \<lparr>Data = empty_df, Metadata = map (\<lambda>(k, m). (PyStr k, m)) key_metadata\<rparr>)) self)"

definition assert_group_name_exists :: "string \<Rightarrow> unit action" where
  "assert_group_name_exists grp =
     (\<lambda>self.
       (if grp \<notin> fst ` set self then raise DataPreparationException else succeed ()) self)"

text \<open>
  \<open>_assert_indexes_match(container, column)\<close>: the length test, then the loop over the
  index names of the container.
\<close>

fun names_found :: "pyval list \<Rightarrow> pyval list \<Rightarrow> error + unit" where
  "names_found [] column_index = Inr ()"
| "names_found (index_column # group_index) column_index =
     (if index_column \<notin> set column_index then Inl DataPreparationException
      else names_found group_index column_index)"

definition assert_indexes_match :: "dataframe \<Rightarrow> column_data \<Rightarrow> error + unit" where
  "assert_indexes_match container column =
     (let group_index = index_names container; column_index = arg_index_names column in
      if length group_index \<noteq> length column_index then Inl DataPreparationException
      else names_found group_index column_index)"

fun ensure_is_series :: "column_data \<Rightarrow> error + squeezed" where
  "ensure_is_series (Series s) = Inr (IsSeries s)"
| "ensure_is_series (Frame s others) =
     (if length (s # others) > 1 then Inl DataPreparationException else Inr (squeeze s))"

definition add_value_column :: "string \<Rightarrow> column_data \<Rightarrow> metadata_record \<Rightarrow> unit action" where
  "add_value_column grp column metadata =
     and_then (assert_group_name_exists grp) (\<lambda>_.
     and_then (get_group grp) (\<lambda>item.
     let container = Data item in
     and_then (pure (assert_indexes_match container column)) (\<lambda>_.
     and_then (pure (ensure_is_series column)) (\<lambda>column.
     and_then (pure (pd_concat_columns container column)) (\<lambda>df.
     and_then (set_data grp df) (\<lambda>_.
     and_then (pure (name_of column)) (\<lambda>name.
     update_metadata grp name metadata)))))))"

text \<open>
  \<open>add_value_rows(self, group, rows, metadata=None)\<close>. \<open>not metadata\<close> holds for \<open>None\<close> and
  for the empty dictionary.
\<close>

fun falsy :: "metadata_record option \<Rightarrow> bool" where
  "falsy None = True"
| "falsy (Some m) = (m = [])"

fun series_of :: "squeezed \<Rightarrow> error + series" where
  "series_of (IsSeries s) = Inr s"
| "series_of IsScalar = Inl ValueError"

definition add_value_rows :: "string \<Rightarrow> column_data \<Rightarrow> metadata_record option \<Rightarrow> unit action" where
  "add_value_rows grp rws metadata =
     and_then (assert_group_name_exists grp) (\<lambda>_.
     and_then (get_group grp) (\<lambda>item.
     let container = Data item in
     and_then (pure (assert_indexes_match container rws)) (\<lambda>_.
     and_then (pure (ensure_is_series rws)) (\<lambda>rws.
     and_then (pure (name_of rws)) (\<lambda>name.
     and_then
       (if name \<notin> set (columns container) then
          (if falsy metadata then raise DataPreparationException
           else update_metadata grp name (the metadata))
        else succeed ()) (\<lambda>_.
     and_then (pure (series_of rws)) (\<lambda>s.
     and_then (pure (pd_concat_rows container s)) (\<lambda>df.
     set_data grp df))))))))"

subsection \<open>Writing the file\<close>

text \<open>Python's \<open>str.lower\<close> on ASCII letters.\<close>

definition lower_char :: "char \<Rightarrow> char" where
  "lower_char c =
     (let n = (of_char c :: nat) in if 65 \<le> n \<and> n \<le> 90 then char_of (n + 32) else c)"

definition lower :: "string \<Rightarrow> string" where
  "lower s = map lower_char s"

text \<open>
  \<open>_convert_enums(metadata)\<close>:
  \<open>{k: {enum.name.lower(): v for enum, v in entries.items()} for k, entries in metadata.items()}\<close>.
\<close>

definition convert_enums ::
  "(pyval \<times> metadata_record) list \<Rightarrow> (pyval \<times> (string \<times> pyval) list) list" where
  "convert_enums metadata =
     map (\<lambda>(k, entries). (k, map (\<lambda>(enum, v). (lower (Metadatum_name enum), v)) entries)) metadata"

text \<open>
  \<open>save_to_file(self, out_file_path)\<close> opens a store in mode \<open>"w"\<close> and, for every group in
  order, puts the grouped table under the group name and attaches the converted metadata
  as \<open>plot_metadata\<close>. The result is the file written: its path and its entries. An entry
  holds the dictionary that is handed to \<open>json.dumps(...).encode('utf8')\<close>.
\<close>

record hdf_entry =
  table :: dataframe
  plot_metadata :: "(pyval \<times> (string \<times> pyval) list) list"

fun put_groups :: "datasets \<Rightarrow> (string \<times> hdf_entry) list \<Rightarrow> error + (string \<times> hdf_entry) list" where
  "put_groups [] store = Inr store"
| "put_groups ((key, item) # items) store =
     (case group_by_index (Data item) of
        Inl e \<Rightarrow> Inl e
      | Inr df \<Rightarrow>
          put_groups items
            (AList.update key \<lparr>table = df, plot_metadata = convert_enums (Metadata item)\<rparr> store))"

definition save_to_file :: "datasets \<Rightarrow> string \<Rightarrow> error + string \<times> (string \<times> hdf_entry) list" where
  "save_to_file self out_file_path =
     (let out_file_path = file_path out_file_path in
      case put_groups self [] of
        Inl e \<Rightarrow> Inl e
      | Inr store \<Rightarrow> Inr (out_file_path, store))"

text \<open>
  Reading the block back, \<open>json.loads(plot_metadata.decode('utf8'))\<close>: the keys of a JSON
  object are strings, so that a string key comes back as it is, an integer key as its
  decimal text and \<open>None\<close> as \<open>null\<close>; of a key that occurs again the last value is kept, at
  the place of the first. The values, strings, integers and \<open>None\<close>, come back as they are.
\<close>

fun nat_digits :: "nat \<Rightarrow> string" where
  "nat_digits n =
     (if n < 10 then [char_of (48 + n)] else nat_digits (n div 10) @ [char_of (48 + n mod 10)])"

definition str_of_int :: "int \<Rightarrow> string" where
  "str_of_int i = (if i < 0 then CHR ''-'' # nat_digits (nat (- i)) else nat_digits (nat i))"

fun json_key :: "pyval \<Rightarrow> string" where
  "json_key PyNone = ''null''"
| "json_key (PyStr s) = s"
| "json_key (PyInt i) = str_of_int i"

definition loads_object :: "(string \<times> 'v) list \<Rightarrow> (string \<times> 'v) list" where
  "loads_object pairs = foldl (\<lambda>object (k, v). AList.update k v object) [] pairs"

definition decoded_metadata ::
  "(pyval \<times> (string \<times> pyval) list) list \<Rightarrow> (string \<times> (string \<times> pyval) list) list" where
  "decoded_metadata metadata =
     loads_object (map (\<lambda>(k, entries). (json_key k, loads_object entries)) metadata)"

subsection \<open>Reading a table\<close>

text \<open>
  What the properties say about tables. A table is well formed when every row has one
  cell per column. \<open>column_values c df\<close> is the column \<open>df[c]\<close> as a list of index key and
  cell, read at the first column labelled \<open>c\<close> (all missing when there is none), and
  \<open>key_total k\<close> is the sum of such a column over the rows of key \<open>k\<close>, a missing value
  counting as \<open>0\<close>.
\<close>

definition well_formed :: "dataframe \<Rightarrow> bool" where
  "well_formed df = list_all (\<lambda>(k, cells). length cells = length (columns df)) (rows df)"

definition column_position :: "pyval \<Rightarrow> pyval list \<Rightarrow> nat" where
  "column_position c cols = length (takeWhile (\<lambda>x. x \<noteq> c) cols)"

definition column_values :: "pyval \<Rightarrow> dataframe \<Rightarrow> (key \<times> cell) list" where
  "column_values c df =
     map (\<lambda>(k, cells). (k, cell_at (column_position c (columns df)) cells)) (rows df)"

definition key_total :: "key \<Rightarrow> (key \<times> cell) list \<Rightarrow> int" where
  "key_total k xs =
     sum_list (map (\<lambda>(k', v). case v of Some x \<Rightarrow> x | None \<Rightarrow> 0) (filter (\<lambda>(k', v). k' = k) xs))"


subsection \<open>Example data\<close>

text \<open>
  The preparer of the tests after \<open>init_data_group(group="Group", key_metadata={"ColA":
  column_metadata(label="A")})\<close>, and a Series indexed by \<open>ColB\<close>.
\<close>

definition one_group :: datasets where
  "one_group =
     [(''Group'',
       \<lparr>Data = \<lparr>index_names = [PyStr ''ColA''], columns = [], rows = []\<rparr>,
        Metadata = [(PyStr ''ColA'', [(Label, PyStr ''A''), (Unit, PyNone)])]\<rparr>)]"

definition colB_series :: series where
  "colB_series = \<lparr>s_index_names = [PyStr ''ColB''], s_name = PyNone, s_rows = [([0], Some 0)]\<rparr>"

text \<open>
  A one-row Series for the value column \<open>MyValueColumn\<close>, and the preparer after that
  column has received its first row with the metadata \<open>column_metadata(label="SomeLabel")\<close>.
\<close>

definition value_series :: "int \<Rightarrow> int \<Rightarrow> series" where
  "value_series k v =
     \<lparr>s_index_names = [PyStr ''ColA''], s_name = PyStr ''MyValueColumn'', s_rows = [([k], Some v)]\<rparr>"



text \<open>
  The round trip of the tests: a group with key column \<open>ColA\<close>, then two \<open>add_value_rows\<close>
  calls for \<open>MyValueColumn\<close>, the value \<open>v\<close> at the index value \<open>i\<close> and the value \<open>w\<close> at
  \<open>j\<close>, the second call with empty metadata. The metadata records are
  \<open>{Label: la, Unit: ua}\<close> for the key column and \<open>{Label: l, Unit: u}\<close> for the value column.
\<close>

definition roundtrip_example ::
  "int \<Rightarrow> int \<Rightarrow> int \<Rightarrow> int \<Rightarrow> pyval \<Rightarrow> pyval \<Rightarrow> pyval \<Rightarrow> pyval \<Rightarrow> datasets" where
  "roundtrip_example i v j w la ua l u =
     snd (add_value_rows ''Group'' (Series (value_series j w)) (Some [])
       (snd (add_value_rows ''Group'' (Series (value_series i v))
               (Some [(Label, l), (Unit, u)])
          (snd (init_data_group ''Group'' [(''ColA'', [(Label, la), (Unit, ua)])] [])))))"

text \<open>
  A second group beside the first, and the first group after two \<open>add_value_rows\<close> calls
  at the same index value \<open>0\<close>, with the values \<open>3\<close> and \<open>4\<close>.
\<close>

definition two_groups :: datasets where
  "two_groups =
     one_group @
     [(''Other'',
       \<lparr>Data = \<lparr>index_names = [PyStr ''ColB''], columns = [PyStr ''Speed''],
                rows = [([5], [Some 2]), ([5], [None])]\<rparr>,
        Metadata = [(PyStr ''ColB'', [(Label, PyStr ''B''), (Unit, PyNone)]),
                    (PyStr ''Speed'', [(Label, PyStr ''Speed''), (Unit, PyStr ''m/s'')])]\<rparr>)]"





section \<open>Properties\<close>

subsection \<open>The operations, statement by statement\<close>

text \<open>
  Each operation written out as the cases of its statements: which exception ends it, and
  the \<open>datasets\<close> it leaves there.
\<close>

lemmas action_defs = and_then_def pure_def raise_def succeed_def get_group_def set_group_def
  set_data_def update_metadata_def assert_group_name_exists_def

lemma in_keys_iff: "grp \<in> fst ` set self \<longleftrightarrow> map_of self grp \<noteq> None"
  by (simp add: map_of_eq_None_iff)

lemma init_data_group_unfold:
  "init_data_group grp km self =
     (if map_of self grp \<noteq> None then (Inl DataPreparationException, self)
      else case empty_indexed_frame (map fst km) of
             Inl e \<Rightarrow> (Inl e, self)
           | Inr empty_df \<Rightarrow>
               (Inr (), AList.update grp
                  \<lparr>Data = empty_df, Metadata = map (\<lambda>(k, m). (PyStr k, m)) km\<rparr> self))"
  by (simp add: init_data_group_def action_defs in_keys_iff Let_def split: sum.split)

lemma add_value_column_unfold:
  "add_value_column grp column md self =
     (case map_of self grp of
        None \<Rightarrow> (Inl DataPreparationException, self)
      | Some item \<Rightarrow>
          (case assert_indexes_match (Data item) column of
             Inl e \<Rightarrow> (Inl e, self)
           | Inr u \<Rightarrow>
               (case ensure_is_series column of
                  Inl e \<Rightarrow> (Inl e, self)
                | Inr sq \<Rightarrow>
                    (case pd_concat_columns (Data item) sq of
                       Inl e \<Rightarrow> (Inl e, self)
                     | Inr df \<Rightarrow>
                         (case name_of sq of
                            Inl e \<Rightarrow> (Inl e, AList.update grp (item\<lparr>Data := df\<rparr>) self)
                          | Inr name \<Rightarrow>
                              (Inr (), AList.update grp
                                 (item\<lparr>Data := df,
                                        Metadata := AList.update name md (Metadata item)\<rparr>) self))))))"
  by (simp add: add_value_column_def action_defs in_keys_iff Let_def update_conv'
      split: option.split sum.split)

lemma add_value_rows_unfold:
  "add_value_rows grp rws md self =
     (case map_of self grp of
        None \<Rightarrow> (Inl DataPreparationException, self)
      | Some item \<Rightarrow>
          (case assert_indexes_match (Data item) rws of
             Inl e \<Rightarrow> (Inl e, self)
           | Inr u \<Rightarrow>
               (case ensure_is_series rws of
                  Inl e \<Rightarrow> (Inl e, self)
                | Inr sq \<Rightarrow>
                    (case name_of sq of
                       Inl e \<Rightarrow> (Inl e, self)
                     | Inr name \<Rightarrow>
                         if name \<notin> set (columns (Data item)) \<and> falsy md
                         then (Inl DataPreparationException, self)
                         else
                           let item' = (if name \<notin> set (columns (Data item))
                                        then item\<lparr>Metadata := AList.update name (the md) (Metadata item)\<rparr>
                                        else item);
                               self' = (if name \<notin> set (columns (Data item))
                                        then AList.update grp item' self else self) in
                           (case series_of sq of
                              Inl e \<Rightarrow> (Inl e, self')
                            | Inr s \<Rightarrow>
                                (case pd_concat_rows (Data item) s of
                                   Inl e \<Rightarrow> (Inl e, self')
                                 | Inr df \<Rightarrow>
                                     (Inr (), AList.update grp (item'\<lparr>Data := df\<rparr>) self')))))))"
  by (simp add: add_value_rows_def action_defs in_keys_iff Let_def update_conv'
      split: option.split sum.split)

text \<open>
  A new group's table has the key columns, the keys of a dictionary, as its index names:
  they are distinct. The group of the examples is created this way.
\<close>

lemma init_data_group_creates:
  assumes "map_of self grp = None" and "key_metadata \<noteq> []"
  shows "init_data_group grp key_metadata self =
           (Inr (), AList.update grp
              \<lparr>Data = \<lparr>index_names = map PyStr (map fst key_metadata), columns = [], rows = []\<rparr>,
               Metadata = map (\<lambda>(k, m). (PyStr k, m)) key_metadata\<rparr> self)"
  using assms by (simp add: init_data_group_unfold empty_indexed_frame_def)

lemma key_columns_distinct:
  "distinct (map fst key_metadata) \<Longrightarrow> distinct (map PyStr (map fst key_metadata))"
  by (simp add: distinct_map inj_on_def)

lemma one_group_created:
  "init_data_group ''Group'' [(''ColA'', column_metadata (PyStr ''A'') PyNone)] [] = (Inr (), one_group)"
  by (simp add: init_data_group_unfold empty_indexed_frame_def column_metadata_def one_group_def)

subsection \<open>Which exceptions the statements raise\<close>

lemma names_found_iff: "names_found gs cs = Inr () \<longleftrightarrow> set gs \<subseteq> set cs"
  by (induction gs) auto



lemma assert_indexes_match_iff:
  "assert_indexes_match container column = Inr () \<longleftrightarrow>
     length (index_names container) = length (arg_index_names column)
     \<and> set (index_names container) \<subseteq> set (arg_index_names column)"
  by (simp add: assert_indexes_match_def Let_def names_found_iff)

lemma name_of_not_rejected: "name_of sq \<noteq> Inl DataPreparationException"
  by (cases sq) simp_all

lemma series_of_not_rejected: "series_of sq \<noteq> Inl DataPreparationException"
  by (cases sq) simp_all

lemma pd_concat_columns_not_rejected:
  "pd_concat_columns container sq \<noteq> Inl DataPreparationException"
  by (cases sq) (simp_all add: Let_def)

lemma pd_concat_rows_not_rejected:
  "pd_concat_rows container s \<noteq> Inl DataPreparationException"
  by (simp add: pd_concat_rows_def Let_def)

lemma empty_indexed_frame_not_rejected:
  "empty_indexed_frame ks \<noteq> Inl DataPreparationException"
  by (simp add: empty_indexed_frame_def)

lemma init_rejected: "fst (init_data_group grp km self) = Inl DataPreparationException \<Longrightarrow> snd (init_data_group grp km self) = self"
  by (auto simp: init_data_group_unfold empty_indexed_frame_not_rejected split: sum.splits if_splits)

lemma col_rejected: "fst (add_value_column grp column md self) = Inl DataPreparationException \<Longrightarrow> snd (add_value_column grp column md self) = self"
  by (auto simp: add_value_column_unfold  name_of_not_rejected split: sum.splits option.splits)

lemma rows_rejected: "fst (add_value_rows grp rws md self) = Inl DataPreparationException \<Longrightarrow> snd (add_value_rows grp rws md self) = self"
  by (auto simp: add_value_rows_unfold Let_def series_of_not_rejected pd_concat_rows_not_rejected split: sum.splits option.splits if_splits)





subsection \<open>Appending rows to a table\<close>

lemma column_position_found:
  "c \<in> set cols \<Longrightarrow> column_position c cols < length cols \<and> cols ! column_position c cols = c"
  unfolding column_position_def by (induction cols) auto

lemma column_position_missing:
  "c \<notin> set cols \<Longrightarrow> column_position c cols = length cols"
  unfolding column_position_def by (induction cols) auto

lemma column_position_appended:
  "c \<notin> set cols \<Longrightarrow> column_position c (cols @ [c]) = length cols"
  unfolding column_position_def by (induction cols) auto

lemma unify_names_same: "unify_names xs xs = xs"
  unfolding unify_names_def by (induction xs) simp_all

lemma key_total_append: "key_total k (xs @ ys) = key_total k xs + key_total k ys"
  by (simp add: key_total_def)

lemma column_sum_key_total:
  "column_sum j (rows_of_key k rs) = key_total k (map (\<lambda>(k, cells). (k, cell_at j cells)) rs)"
  by (induction rs) (auto simp: column_sum_def rows_of_key_def key_total_def cell_value_def)

lemma pd_concat_rows_appends:
  assumes "s_name s = c" and "c \<noteq> PyNone"
    and "distinct (columns t)"
    and "well_formed t"
    and "s_index_names s = index_names t"
  shows "\<exists>df. pd_concat_rows t s = Inr df
           \<and> index_names df = index_names t
           \<and> columns df = (if c \<in> set (columns t) then columns t else columns t @ [c])
           \<and> map fst (rows df) = map fst (rows t) @ map fst (s_rows s)
           \<and> column_values c df = column_values c t @ s_rows s
           \<and> well_formed df"
proof -
  have label: "column_label (s_name s) = c"
    using assms(1,2) by (simp add: column_label_def)
  consider (empty) "rows t = []" "columns t = []"
    | (old) "\<not> (rows t = [] \<and> columns t = [])" "c \<in> set (columns t)"
    | (new) "\<not> (rows t = [] \<and> columns t = [])" "c \<notin> set (columns t)"
    by blast
  then show ?thesis
  proof cases
    case empty
    then show ?thesis
      using assms(5)
      by (simp add: pd_concat_rows_def label frame_of_series_def column_values_def
          column_position_def cell_at_def well_formed_def list_all_iff split_beta o_def)
  next
    case old
    note pos = column_position_found [OF old(2)]
    have "cell_at (column_position c (columns t)) (map (\<lambda>c'. if c' = c then v else None) (columns t)) = v"
      for v using pos by (simp add: cell_at_def)
    moreover have "columns t \<noteq> []" using old(2) by auto
    ultimately show ?thesis
      using old(2) assms(4,5)
      by (auto simp: pd_concat_rows_def label Let_def unify_names_same column_values_def
          well_formed_def list_all_iff split_beta o_def)
  next
    case new
    have a: "cell_at (length (columns t)) (cells @ [None]) = cell_at (length (columns t)) cells"
      if "length cells = length (columns t)" for cells
      using that by (simp add: cell_at_def nth_append)
    have b: "cell_at (length (columns t)) (replicate (length (columns t)) None @ [v]) = v" for v
      by (simp add: cell_at_def nth_append)
    have c: "map (\<lambda>x. (fst x, cell_at (length (columns t)) (snd x @ [None]))) (rows t)
           = map (\<lambda>x. (fst x, cell_at (length (columns t)) (snd x))) (rows t)"
      using assms(4) a by (auto simp: well_formed_def list_all_iff)
    have ne: "\<not> (rows t = [] \<and> columns t = [])" by (rule new(1))
    have run: "pd_concat_rows t s =
        Inr \<lparr>index_names = index_names t, columns = columns t @ [c],
             rows = map (\<lambda>(k, cells). (k, cells @ [None])) (rows t)
               @ map (\<lambda>(k, v). (k, replicate (length (columns t)) None @ [v])) (s_rows s)\<rparr>"
      using ne new(2) assms(3,5)
      by (auto simp: pd_concat_rows_def label Let_def unify_names_same)
    show ?thesis
      unfolding run using new(2) assms(4) b c
      by (auto simp: column_values_def column_position_missing column_position_appended
          well_formed_def list_all_iff split_beta o_def)
  qed
qed

subsection \<open>Grouping and writing\<close>

lemma cell_at_map_upt: "j < n \<Longrightarrow> cell_at j (map f [0..<n]) = f j"
  by (simp add: cell_at_def)

lemma group_by_index_sums:
  assumes "PyNone \<notin> set (index_names t)"
    and "set (index_names t) \<inter> set (columns t) = {}"
    and "c \<in> set (columns t)"
    and "table_weight t \<le> exact_limit"
  shows "\<exists>out. group_by_index t = Inr out
           \<and> index_names out = index_names t
           \<and> columns out = columns t
           \<and> map fst (rows out) = sort (remdups (map fst (rows t)))
           \<and> column_values c out
               = map (\<lambda>k. (k, Some (key_total k (column_values c t))))
                   (sort (remdups (map fst (rows t))))"
proof -
  have no_clash: "\<not> list_ex (\<lambda>n. n \<in> set (columns t)) (index_names t)"
    using assms(2) by (auto simp: list_ex_iff)
  note pos = column_position_found [OF assms(3)]
  show ?thesis
    using assms(1,4) no_clash pos
    by (simp add: group_by_index_def column_values_def o_def cell_at_map_upt
        column_sum_key_total)
qed

lemma put_groups_other:
  "put_groups items st = Inr store \<Longrightarrow> map_of items g = None \<Longrightarrow> map_of store g = map_of st g"
proof (induction items arbitrary: st)
  case Nil
  then show ?case by simp
next
  case (Cons a items)
  obtain key item where a: "a = (key, item)" by (cases a)
  from Cons.prems(2) a have ne: "key \<noteq> g" and rest: "map_of items g = None"
    by (auto split: if_splits)
  from Cons.prems(1) a obtain df where
    "put_groups items (AList.update key \<lparr>table = df, plot_metadata = convert_enums (Metadata item)\<rparr> st) = Inr store"
    by (auto split: sum.splits)
  from Cons.IH [OF this rest] ne show ?case by (simp add: update_conv')
qed

lemma put_groups_entry:
  "put_groups items st = Inr store \<Longrightarrow> distinct (map fst items) \<Longrightarrow> map_of items g = Some item
   \<Longrightarrow> \<exists>df. group_by_index (Data item) = Inr df
         \<and> map_of store g = Some \<lparr>table = df, plot_metadata = convert_enums (Metadata item)\<rparr>"
proof (induction items arbitrary: st)
  case Nil
  then show ?case by simp
next
  case (Cons a items)
  obtain key it where a: "a = (key, it)" by (cases a)
  from Cons.prems(1) a obtain df where
    df: "group_by_index (Data it) = Inr df"
    and run: "put_groups items (AList.update key \<lparr>table = df, plot_metadata = convert_enums (Metadata it)\<rparr> st) = Inr store"
    by (auto split: sum.splits)
  show ?case
  proof (cases "key = g")
    case True
    with Cons.prems(3) a have "it = item" by simp
    moreover from Cons.prems(2) a True have "map_of items g = None"
      by (simp add: map_of_eq_None_iff)
    ultimately show ?thesis
      using put_groups_other [OF run] df True by (simp add: update_conv')
  next
    case False
    with Cons.prems(2,3) a have "distinct (map fst items)" "map_of items g = Some item"
      by simp_all
    from Cons.IH [OF run this] show ?thesis .
  qed
qed

lemma save_to_file_entry:
  assumes "save_to_file self path = Inr (p, store)"
    and "distinct (map fst self)"
    and "map_of self g = Some item"
  shows "p = file_path path
       \<and> (\<exists>df. group_by_index (Data item) = Inr df
            \<and> map_of store g = Some \<lparr>table = df, plot_metadata = convert_enums (Metadata item)\<rparr>)"
proof -
  from assms(1) have "put_groups self [] = Inr store" and "p = file_path path"
    by (auto simp: save_to_file_def Let_def split: sum.splits)
  with put_groups_entry [OF _ assms(2,3)] show ?thesis by blast
qed

lemma add_value_rows_run:
  assumes "map_of self grp = Some item"
    and "s_index_names s = index_names (Data item)"
    and "pd_concat_rows (Data item) s = Inr df"
    and "s_name s \<in> set (columns (Data item)) \<or> \<not> falsy md"
  shows "\<exists>item'. add_value_rows grp (Series s) md self = (Inr (), AList.update grp item' self)
           \<and> Data item' = df"
proof -
  have "assert_indexes_match (Data item) (Series s) = Inr ()"
    using assms(2) by (simp add: assert_indexes_match_iff)
  then show ?thesis
    using assms(1,3,4) by (auto simp: add_value_rows_unfold Let_def)
qed

subsection \<open>The index names of a table\<close>

text \<open>
  A call whose series names its index levels as the table does, in the same order,
  leaves the index names of the table as they are, and no call touches another group.
\<close>

lemma ensure_is_series_index_names:
  "ensure_is_series rws = Inr (IsSeries s) \<Longrightarrow> s_index_names s = arg_index_names rws"
  by (cases rws) (auto simp: squeeze_def split: if_splits)

lemma pd_concat_rows_index_names:
  "pd_concat_rows t s = Inr df \<Longrightarrow> s_index_names s = index_names t
     \<Longrightarrow> index_names df = index_names t"
  by (auto simp: pd_concat_rows_def Let_def frame_of_series_def unify_names_same split: if_splits)

lemma pd_concat_columns_index_names:
  "pd_concat_columns t (IsSeries s) = Inr df \<Longrightarrow> s_index_names s = index_names t
     \<Longrightarrow> index_names df = index_names t"
  by (auto simp: Let_def unify_names_same split: if_splits)

lemma add_value_rows_entry:
  assumes "map_of self grp = Some item" and "ensure_is_series rws = Inr (IsSeries s)"
  shows "\<exists>item'. map_of (snd (add_value_rows grp rws md self)) grp = Some item'
           \<and> (Data item' = Data item \<or> pd_concat_rows (Data item) s = Inr (Data item'))"
proof (cases "assert_indexes_match (Data item) rws")
  case (Inl e)
  with assms show ?thesis by (simp add: add_value_rows_unfold)
next
  case (Inr u)
  show ?thesis
  proof (cases "s_name s \<notin> set (columns (Data item)) \<and> falsy md")
    case True
    with Inr assms show ?thesis by (simp add: add_value_rows_unfold)
  next
    case False
    show ?thesis
    proof (cases "pd_concat_rows (Data item) s")
      case (Inl e)
      with False Inr assms show ?thesis
        by (simp add: add_value_rows_unfold Let_def update_conv')
    next
      case (Inr df)
      with False \<open>assert_indexes_match (Data item) rws = Inr u\<close> assms show ?thesis
        by (simp add: add_value_rows_unfold Let_def update_conv')
    qed
  qed
qed

lemma add_value_column_entry:
  assumes "map_of self grp = Some item" and "ensure_is_series column = Inr (IsSeries s)"
  shows "\<exists>item'. map_of (snd (add_value_column grp column metadata self)) grp = Some item'
           \<and> (Data item' = Data item
                \<or> pd_concat_columns (Data item) (IsSeries s) = Inr (Data item'))"
proof (cases "assert_indexes_match (Data item) column")
  case (Inl e)
  with assms show ?thesis by (simp add: add_value_column_unfold)
next
  case (Inr u)
  show ?thesis
  proof (cases "pd_concat_columns (Data item) (IsSeries s)")
    case (Inl e)
    with Inr assms show ?thesis by (simp add: add_value_column_unfold)
  next
    case (Inr df)
    with \<open>assert_indexes_match (Data item) column = Inr u\<close> assms show ?thesis
      by (simp add: add_value_column_unfold update_conv')
  qed
qed

lemma add_value_rows_keeps_index_names:
  assumes "map_of self grp = Some item"
    and "arg_index_names rws = index_names (Data item)"
    and "map_of (snd (add_value_rows grp rws md self)) grp = Some item'"
  shows "index_names (Data item') = index_names (Data item)"
proof (cases "\<exists>s. ensure_is_series rws = Inr (IsSeries s)")
  case True
  then obtain s where s: "ensure_is_series rws = Inr (IsSeries s)" by blast
  then have names: "s_index_names s = index_names (Data item)"
    using ensure_is_series_index_names assms(2) by simp
  from add_value_rows_entry [OF assms(1) s, of md] assms(3)
  have "Data item' = Data item \<or> pd_concat_rows (Data item) s = Inr (Data item')" by simp
  then show ?thesis
  proof
    assume "Data item' = Data item"
    then show ?thesis by simp
  next
    assume "pd_concat_rows (Data item) s = Inr (Data item')"
    then show ?thesis using names by (rule pd_concat_rows_index_names)
  qed
next
  case False
  have "snd (add_value_rows grp rws md self) = self"
  proof (cases "ensure_is_series rws")
    case (Inl e)
    then show ?thesis by (simp add: add_value_rows_unfold split: option.split sum.split)
  next
    case (Inr sq)
    with False have "sq = IsScalar" by (cases sq) auto
    with Inr show ?thesis by (simp add: add_value_rows_unfold split: option.split sum.split)
  qed
  with assms(1,3) show ?thesis by simp
qed

lemma add_value_column_keeps_index_names:
  assumes "map_of self grp = Some item"
    and "arg_index_names column = index_names (Data item)"
    and "map_of (snd (add_value_column grp column metadata self)) grp = Some item'"
  shows "index_names (Data item') = index_names (Data item)"
proof (cases "\<exists>s. ensure_is_series column = Inr (IsSeries s)")
  case True
  then obtain s where s: "ensure_is_series column = Inr (IsSeries s)" by blast
  then have names: "s_index_names s = index_names (Data item)"
    using ensure_is_series_index_names assms(2) by simp
  from add_value_column_entry [OF assms(1) s, of metadata] assms(3)
  have "Data item' = Data item \<or> pd_concat_columns (Data item) (IsSeries s) = Inr (Data item')"
    by simp
  then show ?thesis
  proof
    assume "Data item' = Data item"
    then show ?thesis by simp
  next
    assume "pd_concat_columns (Data item) (IsSeries s) = Inr (Data item')"
    then show ?thesis using names by (rule pd_concat_columns_index_names)
  qed
next
  case False
  have "snd (add_value_column grp column metadata self) = self"
  proof (cases "ensure_is_series column")
    case (Inl e)
    then show ?thesis by (simp add: add_value_column_unfold split: option.split sum.split)
  next
    case (Inr sq)
    with False have "sq = IsScalar" by (cases sq) auto
    with Inr show ?thesis by (simp add: add_value_column_unfold split: option.split sum.split)
  qed
  with assms(1,3) show ?thesis by simp
qed

lemma add_value_rows_other_groups:
  "g \<noteq> grp \<Longrightarrow> map_of (snd (add_value_rows grp rws md self)) g = map_of self g"
  by (auto simp: add_value_rows_unfold Let_def update_conv' split: sum.splits option.splits)

lemma add_value_column_other_groups:
  "g \<noteq> grp \<Longrightarrow> map_of (snd (add_value_column grp column metadata self)) g = map_of self g"
  by (auto simp: add_value_column_unfold update_conv' split: sum.splits option.splits)


subsection \<open>Joining a column to a table\<close>










subsection \<open>Exact sums and a write that succeeds\<close>

lemma series_weight_snd: "series_weight s = sum_list (map (\<lambda>x. magnitude (snd x)) (s_rows s))"
  by (simp add: series_weight_def case_prod_unfold)

lemma other_columns_weight:
  "name \<notin> set cols
     \<Longrightarrow> sum_list (map magnitude (map (\<lambda>c. if c = name then v else None) cols)) = 0"
  by (induction cols) (auto simp: magnitude_def)

lemma one_column_weight:
  "distinct cols \<Longrightarrow> name \<in> set cols
     \<Longrightarrow> sum_list (map magnitude (map (\<lambda>c. if c = name then v else None) cols)) = magnitude v"
proof (induction cols)
  case Nil
  then show ?case by simp
next
  case (Cons a cols)
  show ?case
  proof (cases "a = name")
    case True
    with Cons.prems have "name \<notin> set cols" by simp
    from other_columns_weight [OF this, of v] True show ?thesis by simp
  next
    case False
    with Cons show ?thesis by (simp add: magnitude_def)
  qed
qed

lemma missing_weight: "sum_list (map magnitude (replicate n None)) = 0"
  by (induction n) (simp_all add: magnitude_def)

lemma pd_concat_rows_weight:
  assumes "distinct (columns t)" and "pd_concat_rows t s = Inr df"
  shows "table_weight df = table_weight t + series_weight s"
proof -
  let ?name = "column_label (s_name s)"
  consider (empty) "rows t = []" "columns t = []"
    | (old) "\<not> (rows t = [] \<and> columns t = [])" "?name \<in> set (columns t)"
    | (new) "\<not> (rows t = [] \<and> columns t = [])" "?name \<notin> set (columns t)"
    by blast
  then show ?thesis
  proof cases
    case empty
    with assms(2) have "df = frame_of_series s" by (simp add: pd_concat_rows_def Let_def)
    with empty(1) show ?thesis
      by (simp add: frame_of_series_def table_weight_def series_weight_snd case_prod_unfold o_def)
  next
    case old
    with assms(2) have "rows df = rows t
        @ map (\<lambda>(k, v). (k, map (\<lambda>c. if c = ?name then v else None) (columns t))) (s_rows s)"
      by (auto simp: pd_concat_rows_def Let_def)
    then show ?thesis
      using one_column_weight [OF assms(1) old(2)]
      by (simp add: table_weight_def series_weight_snd case_prod_unfold o_def)
  next
    case new
    with assms have "rows df = map (\<lambda>(k, cells). (k, cells @ [None])) (rows t)
        @ map (\<lambda>(k, v). (k, replicate (length (columns t)) None @ [v])) (s_rows s)"
      by (auto simp: pd_concat_rows_def Let_def)
    then show ?thesis
      by (simp add: table_weight_def series_weight_snd case_prod_unfold o_def
          sum_list_replicate magnitude_def)
  qed
qed

lemma put_groups_succeeds:
  "\<forall>(g, other) \<in> set items. \<exists>df. group_by_index (Data other) = Inr df
     \<Longrightarrow> \<exists>store. put_groups items st = Inr store"
proof (induction items arbitrary: st)
  case Nil
  then show ?case by simp
next
  case (Cons a items)
  obtain key item where a: "a = (key, item)" by (cases a)
  from Cons.prems a obtain df where df: "group_by_index (Data item) = Inr df" by auto
  from Cons.prems have "\<forall>(g, other) \<in> set items. \<exists>df. group_by_index (Data other) = Inr df"
    by simp
  from Cons.IH [OF this] show ?case by (simp add: a df)
qed

lemma in_update:
  "distinct (map fst al) \<Longrightarrow> (g, x) \<in> set (AList.update k v al)
     \<Longrightarrow> (g = k \<and> x = v) \<or> (g \<noteq> k \<and> (g, x) \<in> set al)"
  by (induction al) (force split: if_splits)+

lemma save_to_file_succeeds:
  assumes "\<forall>(g, other) \<in> set self. \<exists>df. group_by_index (Data other) = Inr df"
  shows "\<exists>store. save_to_file self path = Inr (file_path path, store)"
proof -
  from put_groups_succeeds [OF assms, of "[]"] obtain store where "put_groups self [] = Inr store"
    by blast
  then show ?thesis by (simp add: save_to_file_def)
qed

subsection \<open>Metadata records\<close>

text \<open>
  C1, evaluated on the code: for the empty label, the \<open>None\<close> label and the blank label
  \<open>column_metadata\<close> returns a record holding that label as it is, and an integer label
  stays an integer; nothing is raised and nothing is converted to a string.
\<close>

theorem column_metadata_accepts_blank_labels:
  "column_metadata (PyStr '''') PyNone = [(Label, PyStr ''''), (Unit, PyNone)]
   \<and> column_metadata PyNone PyNone = [(Label, PyNone), (Unit, PyNone)]
   \<and> column_metadata (PyStr '' '') PyNone = [(Label, PyStr '' ''), (Unit, PyNone)]
   \<and> column_metadata (PyInt 4) (PyStr ''m/s'') = [(Label, PyInt 4), (Unit, PyStr ''m/s'')]"
  by (simp add: column_metadata_def)

text \<open>
  C7, evaluated on the code: called without a unit, \<open>column_metadata\<close> maps \<open>Unit\<close> to
  \<open>None\<close>, which is not the empty string.
\<close>

theorem column_metadata_default_unit_is_none:
  "map_of (column_metadata (PyStr ''MyLabel'') PyNone) Unit = Some PyNone
   \<and> map_of (column_metadata (PyStr ''MyLabel'') PyNone) Unit \<noteq> Some (PyStr '''')"
  by (simp add: column_metadata_def)

subsection \<open>Creating a group\<close>

text \<open>
  C2, evaluated on the code: on a fresh preparer \<open>init_data_group\<close> returns normally for a
  blank group name, for a blank key-column name and for a key metadata record without a
  label; it creates the group in each case.
\<close>

theorem init_data_group_accepts_blank_names:
  "init_data_group '' '' [(''ColA'', column_metadata (PyStr ''A'') PyNone)] []
     = (Inr (),
        [('' '', \<lparr>Data = \<lparr>index_names = [PyStr ''ColA''], columns = [], rows = []\<rparr>,
                  Metadata = [(PyStr ''ColA'', [(Label, PyStr ''A''), (Unit, PyNone)])]\<rparr>)])
   \<and> fst (init_data_group ''MyGroup'' [(''  '', column_metadata (PyStr ''A'') PyNone)] []) = Inr ()
   \<and> fst (init_data_group ''MyGroup'' [(''Col'', [(Unit, PyStr ''MyUnit'')])] []) = Inr ()"
  by (simp add: init_data_group_unfold empty_indexed_frame_def column_metadata_def)

subsection \<open>The name of the file written\<close>

text \<open>
  C3, evaluated on the code: the path \<open>h5data\<close> has no extension, yet it is taken as it is,
  since \<open>h5\<close> occurs in it; so is \<open>./the5th\<close>, in which \<open>he5\<close> occurs.
\<close>

theorem file_path_substring_not_extension:
  "file_path ''h5data'' = ''h5data'' \<and> file_path ''./the5th'' = ''./the5th''"
  by (simp add: file_path_def extensions_def)

subsection \<open>Rejected calls\<close>

text \<open>
  C8: when \<open>init_data_group\<close>, \<open>add_value_column\<close> or \<open>add_value_rows\<close> raises
  \<open>DataPreparationException\<close>, the \<open>datasets\<close> of the preparer, every group's table and
  metadata, are the ones before the call.
\<close>

theorem rejected_call_leaves_groups_unchanged:
  "(fst (init_data_group grp key_metadata self) = Inl DataPreparationException
      \<longrightarrow> snd (init_data_group grp key_metadata self) = self)
   \<and> (fst (add_value_column grp column metadata self) = Inl DataPreparationException
      \<longrightarrow> snd (add_value_column grp column metadata self) = self)
   \<and> (fst (add_value_rows grp rws md self) = Inl DataPreparationException
      \<longrightarrow> snd (add_value_rows grp rws md self) = self)"
  using init_rejected col_rejected rows_rejected by blast

theorem rejected_call_leaves_groups_unchanged_witness:
  "fst (init_data_group ''Group'' [] one_group) = Inl DataPreparationException
   \<and> snd (init_data_group ''Group'' [] one_group) = one_group
   \<and> fst (add_value_column ''Group'' (Series colB_series) [] one_group) = Inl DataPreparationException
   \<and> snd (add_value_column ''Group'' (Series colB_series) [] one_group) = one_group
   \<and> fst (add_value_rows ''Group'' (Series colB_series) None one_group) = Inl DataPreparationException
   \<and> snd (add_value_rows ''Group'' (Series colB_series) None one_group) = one_group"
proof -
  have a: "fst (init_data_group ''Group'' [] one_group) = Inl DataPreparationException"
    by (simp add: init_data_group_unfold one_group_def)
  have b: "fst (add_value_column ''Group'' (Series colB_series) [] one_group)
             = Inl DataPreparationException"
    by (simp add: add_value_column_unfold one_group_def colB_series_def assert_indexes_match_def)
  have c: "fst (add_value_rows ''Group'' (Series colB_series) None one_group)
             = Inl DataPreparationException"
    by (simp add: add_value_rows_unfold one_group_def colB_series_def assert_indexes_match_def)
  show ?thesis
    using a b c
      rejected_call_leaves_groups_unchanged
        [where grp = "''Group''" and key_metadata = "[]" and self = one_group
           and column = "Series colB_series" and metadata = "[]"
           and rws = "Series colB_series" and md = None]
    by blast
qed




subsection \<open>Adding rows\<close>




subsection \<open>Adding a column under a name the table already has\<close>




end
